theory Spec2Isabelle
  imports Main "HOL-Library.Monad_Syntax" "HOL-Library.AList"
begin

section \<open>The latency report script \<open>dz_latency.py\<close>\<close>

text \<open>
  The script joins four data sources (the IP list, the gossip snapshot, the set of active
  validators and the validator names) into one row per IP. Everything the script reads
  from outside (commands, files, the HTTP service) is an input of the model; \<open>print\<close>
  calls have no effect on any value and are left out.

  Python strings are modelled as \<open>string\<close>. The JSON documents are modelled with the
  shape the program reads: a field obtained with \<open>.get\<close> is an optional string, \<open>None\<close>
  standing for an absent key. The dictionary of validator names is an association list
  with one pair per key, in insertion order: \<open>map_of\<close> reads it, \<open>AList.update\<close> stores
  into it, and it is false (empty) exactly when it is \<open>[]\<close>.
\<close>

subsection \<open>Exceptions\<close>

text \<open>
  The exception classes the handlers of the script tell apart. In Python 3 \<open>IOError\<close> is
  \<open>OSError\<close>; \<open>FileNotFoundError\<close> and the \<open>requests\<close> exceptions are subclasses of it.
  \<open>OSError\<close> below is any other operating system error, \<open>OtherException\<close> any other
  subclass of \<open>Exception\<close>.
\<close>

datatype py_exc =
  FileNotFoundError | OSError | TimeoutExpired | JSONDecodeError | RequestException
  | OtherException

fun is_IOError :: "py_exc \<Rightarrow> bool" where
  "is_IOError FileNotFoundError = True"
| "is_IOError OSError = True"
| "is_IOError RequestException = True"
| "is_IOError TimeoutExpired = False"
| "is_IOError JSONDecodeError = False"
| "is_IOError OtherException = False"

text \<open>
  A \<open>try\<close> block: the body either raises (\<open>Inl\<close>) or returns (\<open>Inr\<close>); the handlers map
  an exception to the value the matching \<open>except\<close> clause returns, or to \<open>None\<close> when no
  clause matches and the exception leaves the function.
\<close>

definition try_except :: "py_exc + 'a \<Rightarrow> (py_exc \<Rightarrow> 'a option) \<Rightarrow> py_exc + 'a" where
  "try_except body handlers =
     (case body of
        Inr v \<Rightarrow> Inr v
      | Inl e \<Rightarrow> (case handlers e of Some v \<Rightarrow> Inr v | None \<Rightarrow> Inl e))"

text \<open>
  The outcome of \<open>subprocess.run\<close>: it raises, or the command completes with a return code
  and its standard output.
\<close>

datatype 'out proc = Raises py_exc | Completed int 'out

text \<open>
  The standard output of a command that prints JSON is represented by the document
  \<open>json.loads\<close> reads from it, \<open>None\<close> when the text is not JSON.
\<close>

definition json_loads :: "'doc option \<Rightarrow> py_exc + 'doc" where
  "json_loads out = (case out of None \<Rightarrow> Inl JSONDecodeError | Some d \<Rightarrow> Inr d)"

text \<open>Truth value of an optional string: \<open>None\<close> and the empty string are false.\<close>

fun truthy :: "string option \<Rightarrow> bool" where
  "truthy None = False"
| "truthy (Some s) = (s \<noteq> [])"

subsection \<open>Gossip lookup\<close>

record gossip_entry =
  ipAddress :: "string option"
  identityPubkey :: "string option"

text \<open>
  \<open>get_identity_from_gossip\<close>: the \<open>for\<close> loop over the snapshot. On records of this shape
  the body raises nothing, so the two \<open>except\<close> clauses (both returning \<open>None\<close>) are never
  entered.
\<close>

fun get_identity_from_gossip :: "string \<Rightarrow> gossip_entry list \<Rightarrow> string option" where
  "get_identity_from_gossip ip_address [] = None"
| "get_identity_from_gossip ip_address (entry # gossip_data) =
     (if ipAddress entry = Some ip_address then
        (let identity_pubkey = identityPubkey entry in
         if truthy identity_pubkey then identity_pubkey
         else get_identity_from_gossip ip_address gossip_data)
      else get_identity_from_gossip ip_address gossip_data)"

subsection \<open>Classification of one IP\<close>

text \<open>
  Lines 275 to 289 of \<open>main\<close>: the status and the name computed for one IP from the
  identity found in gossip, the active set and the name map.
\<close>

definition classify ::
  "string \<Rightarrow> gossip_entry list \<Rightarrow> string set \<Rightarrow> (string \<times> string) list \<Rightarrow> string \<times> string" where
  "classify ip gossip_data active_validator_identities validator_info =
     (let identity_key = get_identity_from_gossip ip gossip_data;
          status = ''gossip_not_found'';
          name = ''''
      in case identity_key of
           None \<Rightarrow> (status, name)
         | Some key \<Rightarrow>
             if key \<noteq> [] then
               (if key \<in> active_validator_identities then
                  (''validator'',
                   (case map_of validator_info key of Some n \<Rightarrow> n | None \<Rightarrow> ''Unknown''))
                else (''gossip'', name))
             else (status, name))"

subsection \<open>Loading the registries\<close>

record validator_entry =
  validator_identityPubkey :: "string option"

record validators_doc =
  validators :: "validator_entry list option"

text \<open>
  \<open>load_active_validators\<close>: every failure is turned into the empty set by one of the four
  handlers.
\<close>

definition load_active_validators :: "validators_doc option proc \<Rightarrow> py_exc + string set" where
  "load_active_validators run =
     try_except
       (case run of
          Raises e \<Rightarrow> Inl e
        | Completed returncode stdout \<Rightarrow>
            if returncode \<noteq> 0 then Inr {}
            else (case json_loads stdout of
                    Inl e \<Rightarrow> Inl e
                  | Inr data \<Rightarrow>
                      (let validator_list = (case validators data of Some l \<Rightarrow> l | None \<Rightarrow> [])
                       in Inr (set [the (validator_identityPubkey v). v \<leftarrow> validator_list,
                                    truthy (validator_identityPubkey v)]))))
       (\<lambda>e. if e = FileNotFoundError then Some {}
            else if e = JSONDecodeError then Some {}
            else if e = TimeoutExpired then Some {}
            else Some {})"

record validator_info_fields =
  info_name :: "string option"

record validator_info_entry =
  info_identityPubkey :: "string option"
  info_fields :: "validator_info_fields option"

text \<open>\<open>v.get("info", {}).get("name")\<close>\<close>

definition entry_name :: "validator_info_entry \<Rightarrow> string option" where
  "entry_name v = (case info_fields v of None \<Rightarrow> None | Some i \<Rightarrow> info_name i)"

text \<open>
  \<open>load_validator_details\<close>: the dictionary comprehension stores the entries in the order
  of the document, a later entry replacing an earlier one with the same key.
\<close>

definition load_validator_details ::
  "validator_info_entry list option proc \<Rightarrow> py_exc + (string \<times> string) list" where
  "load_validator_details run =
     try_except
       (case run of
          Raises e \<Rightarrow> Inl e
        | Completed returncode stdout \<Rightarrow>
            if returncode \<noteq> 0 then Inr []
            else (case json_loads stdout of
                    Inl e \<Rightarrow> Inl e
                  | Inr validators_data \<Rightarrow>
                      Inr (foldl (\<lambda>validator_map v.
                                    AList.update (the (info_identityPubkey v)) (the (entry_name v))
                                      validator_map)
                             []
                             [v \<leftarrow> validators_data.
                                truthy (info_identityPubkey v) \<and> truthy (entry_name v)])))
       (\<lambda>e. if e = FileNotFoundError then Some []
            else if e = JSONDecodeError then Some []
            else if e = TimeoutExpired then Some []
            else Some [])"

text \<open>
  \<open>load_gossip_data\<close> returns \<open>None\<close> on the failures it handles; it has no handler for
  other exceptions, which leave the function.
\<close>

definition load_gossip_data ::
  "gossip_entry list option proc \<Rightarrow> py_exc + gossip_entry list option" where
  "load_gossip_data run =
     try_except
       (case run of
          Raises e \<Rightarrow> Inl e
        | Completed returncode stdout \<Rightarrow>
            if returncode \<noteq> 0 then Inr None
            else (case json_loads stdout of Inl e \<Rightarrow> Inl e | Inr data \<Rightarrow> Inr (Some data)))
       (\<lambda>e. if e = FileNotFoundError then Some None
            else if e = TimeoutExpired then Some None
            else if e = JSONDecodeError then Some None
            else None)"

subsection \<open>The IP list\<close>

text \<open>
  \<open>str.strip()\<close> removes the white space of both ends; the white space characters
  below 256 are the space, the characters 9 to 13 and 28 to 31, the next-line character
  (0x85) and the no-break space (0xA0). \<open>str.split('\n')\<close> cuts at every line feed and
  always returns at least one piece.
\<close>

definition is_space :: "char \<Rightarrow> bool" where
  "is_space c = (c \<in> set [CHR '' '', CHR 0x09, CHR 0x0A, CHR 0x0B, CHR 0x0C, CHR 0x0D,
                            CHR 0x1C, CHR 0x1D, CHR 0x1E, CHR 0x1F, CHR 0x85, CHR 0xA0])"

definition strip :: "string \<Rightarrow> string" where
  "strip s = rev (dropWhile is_space (rev (dropWhile is_space s)))"

fun split :: "char \<Rightarrow> string \<Rightarrow> string list" where
  "split sep [] = [[]]"
| "split sep (c # cs) =
     (if c = sep then [] # split sep cs
      else (case split sep cs of
              [] \<Rightarrow> [[c]]
            | piece # pieces \<Rightarrow> (c # piece) # pieces))"

definition get_ips_from_rt :: "string proc \<Rightarrow> py_exc + string list" where
  "get_ips_from_rt run =
     try_except
       (case run of
          Raises e \<Rightarrow> Inl e
        | Completed returncode stdout \<Rightarrow>
            if returncode \<noteq> 0 then Inr []
            else (let ips = split (CHR 0x0A) (strip stdout)
                  in Inr [ip \<leftarrow> ips. ip \<noteq> []]))
       (\<lambda>e. if e = TimeoutExpired then Some [] else Some [])"

subsection \<open>The latency probe\<close>

text \<open>
  The pattern \<open>min/avg/max/mdev = [\d.]+/([\d.]+)/[\d.]+/[\d.]+ ms\<close>. No character of the
  class \<open>[\d.]\<close> is a slash or a space, so a greedy \<open>[\d.]+\<close> followed by a literal can only
  match the whole run of class characters: \<open>take_class\<close> takes that run. \<open>re_search\<close> tries
  the positions from left to right and returns group 1 of the first match. Digits are the
  ASCII digits.
\<close>

definition is_class_char :: "char \<Rightarrow> bool" where
  "is_class_char c = (c \<in> set ''0123456789.'')"

definition take_class :: "string \<Rightarrow> (string \<times> string) option" where
  "take_class s =
     (let run = takeWhile is_class_char s
      in if run = [] then None else Some (run, dropWhile is_class_char s))"

definition expect :: "string \<Rightarrow> string \<Rightarrow> string option" where
  "expect lit s = (if take (length lit) s = lit then Some (drop (length lit) s) else None)"

definition match_here :: "string \<Rightarrow> string option" where
  "match_here s =
     do {
       s1 \<leftarrow> expect ''min/avg/max/mdev = '' s;
       (g0, s2) \<leftarrow> take_class s1;
       s3 \<leftarrow> expect ''/'' s2;
       (g1, s4) \<leftarrow> take_class s3;
       s5 \<leftarrow> expect ''/'' s4;
       (g2, s6) \<leftarrow> take_class s5;
       s7 \<leftarrow> expect ''/'' s6;
       (g3, s8) \<leftarrow> take_class s7;
       s9 \<leftarrow> expect '' ms'' s8;
       Some g1
     }"

fun re_search :: "string \<Rightarrow> string option" where
  "re_search [] = match_here []"
| "re_search (c # cs) =
     (case match_here (c # cs) of Some g \<Rightarrow> Some g | None \<Rightarrow> re_search cs)"

definition ping_ip :: "string proc \<Rightarrow> py_exc + string" where
  "ping_ip run =
     try_except
       (case run of
          Raises e \<Rightarrow> Inl e
        | Completed returncode stdout \<Rightarrow>
            if returncode = 0 then
              (case re_search stdout of
                 Some latency \<Rightarrow> Inr latency
               | None \<Rightarrow> Inr ''unreachable'')
            else Inr ''unreachable'')
       (\<lambda>e. if e = TimeoutExpired then Some ''unreachable'' else Some ''unreachable'')"

subsection \<open>The geo lookup\<close>

record geo_body =
  geo_status :: "string option"
  geo_city :: "string option"
  geo_country :: "string option"

text \<open>
  The outcome of \<open>requests.get\<close>: it raises, or it returns a response with a status code
  and a body (\<open>None\<close> when the body is not JSON). \<open>raise_for_status\<close> raises an
  \<open>HTTPError\<close>, a \<open>RequestException\<close>, for the codes 400 to 599.
\<close>

datatype http = GetRaises py_exc | Response nat "geo_body option"

definition get_ip_location :: "http \<Rightarrow> py_exc + string \<times> string" where
  "get_ip_location response =
     try_except
       (case response of
          GetRaises e \<Rightarrow> Inl e
        | Response status_code body \<Rightarrow>
            if 400 \<le> status_code \<and> status_code < 600 then Inl RequestException
            else (case json_loads body of
                    Inl e \<Rightarrow> Inl e
                  | Inr data \<Rightarrow>
                      if geo_status data = Some ''success'' then
                        (let city = (case geo_city data of Some c \<Rightarrow> c | None \<Rightarrow> ''Unknown'');
                             country = (case geo_country data of Some c \<Rightarrow> c | None \<Rightarrow> ''Unknown'')
                         in Inr (city, country))
                      else Inr (''Unknown'', ''Unknown'')))
       (\<lambda>e. if e = RequestException then Some (''Unknown'', ''Unknown'')
            else Some (''Unknown'', ''Unknown''))"

subsection \<open>The run\<close>

record args =
  ip_list :: "string option"
  no_geo :: bool

text \<open>
  What the run meets outside: the lines of the IP list file (or the exception \<open>open\<close>
  raises), the outcome of each command, the outcome of the probe and of the geo request
  for the IP at each position of the list, and the exception raised when the output file
  is opened for writing, if any.
\<close>

record world =
  ip_list_file :: "py_exc + string list"
  ip_route :: "string proc"
  solana_validators :: "validators_doc option proc"
  solana_validator_info :: "validator_info_entry list option proc"
  solana_gossip :: "gossip_entry list option proc"
  ping :: "nat \<Rightarrow> string proc"
  ip_api :: "nat \<Rightarrow> http"
  open_output :: "py_exc option"

text \<open>\<open>name.replace(',', '')\<close>\<close>

definition remove_commas :: "string \<Rightarrow> string" where
  "remove_commas s = filter (\<lambda>c. c \<noteq> CHR '','') s"

text \<open>
  The \<open>for\<close> loop of \<open>main\<close>, from the IP at position \<open>k\<close> on: the rows appended so far and
  the exception that ended the loop, if any.
\<close>

fun process_ips ::
  "args \<Rightarrow> world \<Rightarrow> gossip_entry list \<Rightarrow> string set \<Rightarrow> (string \<times> string) list \<Rightarrow>
   nat \<Rightarrow> string list \<Rightarrow> string list list \<Rightarrow> string list list \<times> py_exc option" where
  "process_ips a w gossip_data active validator_info k [] results = (results, None)"
| "process_ips a w gossip_data active validator_info k (ip # ips) results =
     (case ping_ip (ping w k) of
        Inl e \<Rightarrow> (results, Some e)
      | Inr latency \<Rightarrow>
          (case classify ip gossip_data active validator_info of
             (status, name) \<Rightarrow>
               if no_geo a then
                 process_ips a w gossip_data active validator_info (Suc k) ips
                   (results @ [[ip, status, name, latency]])
               else
                 (case get_ip_location (ip_api w k) of
                    Inl e \<Rightarrow> (results, Some e)
                  | Inr (city, country) \<Rightarrow>
                      process_ips a w gossip_data active validator_info (Suc k) ips
                        (results @ [[ip, status, remove_commas name, latency, city, country]]))))"

text \<open>The header row written before the data rows.\<close>

definition header :: "args \<Rightarrow> string list" where
  "header a =
     (if no_geo a then [''IP'', ''Status'', ''Validator Name'', ''Latency'', ''City'', ''Country'']
      else [''IP'', ''Status'', ''Validator Name'', ''Latency''])"

text \<open>
  The \<open>try\<close> block that writes the file: the rows written (the header first), or \<open>None\<close>
  when the \<open>IOError\<close> handler was entered and no file was written.
\<close>

definition write_output :: "args \<Rightarrow> world \<Rightarrow> string list list \<Rightarrow> py_exc + string list list option" where
  "write_output a w results =
     try_except
       (case open_output w of
          Some e \<Rightarrow> Inl e
        | None \<Rightarrow> Inr (Some (header a # results)))
       (\<lambda>e. if is_IOError e then Some None else None)"

text \<open>
  The outcome of a run: the exception that left \<open>main\<close> (if any), the rows assembled (one
  per processed IP) and the rows of the file written (\<open>None\<close> when no file was written).
\<close>

record outcome =
  raised :: "py_exc option"
  rows :: "string list list"
  output_file :: "string list list option"

definition crash :: "py_exc \<Rightarrow> outcome" where
  "crash e = \<lparr>raised = Some e, rows = [], output_file = None\<rparr>"

definition early_return :: outcome where
  "early_return = \<lparr>raised = None, rows = [], output_file = None\<rparr>"

definition read_ip_list :: "py_exc + string list \<Rightarrow> py_exc + string list" where
  "read_ip_list f =
     (case f of
        Inl e \<Rightarrow> Inl e
      | Inr lines \<Rightarrow> Inr [strip line. line \<leftarrow> lines, strip line \<noteq> []])"

text \<open>Lines 245 to 249: the IP list comes from the file when a path is given.\<close>

definition resolve_ips :: "args \<Rightarrow> world \<Rightarrow> py_exc + string list" where
  "resolve_ips a w =
     (if truthy (ip_list a) then read_ip_list (ip_list_file w)
      else get_ips_from_rt (ip_route w))"

definition main :: "args \<Rightarrow> world \<Rightarrow> outcome" where
  "main a w =
     (case resolve_ips a w of
        Inl e \<Rightarrow> crash e
      | Inr ip_addresses \<Rightarrow>
     (case load_active_validators (solana_validators w) of
        Inl e \<Rightarrow> crash e
      | Inr active_validator_identities \<Rightarrow>
     (case load_validator_details (solana_validator_info w) of
        Inl e \<Rightarrow> crash e
      | Inr validator_info \<Rightarrow>
     (case load_gossip_data (solana_gossip w) of
        Inl e \<Rightarrow> crash e
      | Inr gossip_data \<Rightarrow>
          if ip_addresses = [] then early_return
          else if active_validator_identities = {} then early_return
          else if validator_info = [] then early_return
          else (case gossip_data of
                  None \<Rightarrow> early_return
                | Some gossip \<Rightarrow>
                    if gossip = [] then early_return
                    else (case process_ips a w gossip active_validator_identities
                                 validator_info 0 ip_addresses [] of
                            (results, Some e) \<Rightarrow>
                              \<lparr>raised = Some e, rows = results, output_file = None\<rparr>
                          | (results, None) \<Rightarrow>
                              (case write_output a w results of
                                 Inl e \<Rightarrow> \<lparr>raised = Some e, rows = results, output_file = None\<rparr>
                               | Inr file \<Rightarrow>
                                   \<lparr>raised = None, rows = results, output_file = file\<rparr>)))))))"

subsection \<open>Notions used in the statements\<close>

text \<open>
  A non-empty run of characters of the class \<open>[\d.]\<close>: what each \<open>[\d.]+\<close> of the pattern
  matches.
\<close>

definition class_run :: "string \<Rightarrow> bool" where
  "class_run x = (x \<noteq> [] \<and> list_all is_class_char x)"

text \<open>
  The pattern matches the output at position \<open>n\<close> with group 1 equal to \<open>l\<close>: from that
  position on the output reads \<open>min/avg/max/mdev = \<close>, four non-empty runs of class
  characters separated by slashes, and \<open> ms\<close>; \<open>l\<close> is the second run. This is the meaning
  of the regular expression, stated without the search function.
\<close>

definition matches_at :: "string \<Rightarrow> nat \<Rightarrow> string \<Rightarrow> bool" where
  "matches_at out n l =
     (\<exists>a c d post.
        drop n out = ''min/avg/max/mdev = '' @ a @ ''/'' @ l @ ''/'' @ c @ ''/'' @ d @ '' ms'' @ post
        \<and> class_run a \<and> class_run l \<and> class_run c \<and> class_run d)"

text \<open>An output of two lines, the summary line being the second.\<close>

definition two_line_output :: string where
  "two_line_output =
     ''3 received'' @ [CHR 0x0A] @ ''rtt min/avg/max/mdev = 0.045/0.052/0.061/0.007 ms''"

text \<open>
  A setup command fails when \<open>subprocess.run\<close> raises, when the return code is not zero,
  or when its output is not JSON: the branches of the loaders that print an error.
\<close>

definition load_failed :: "'doc option proc \<Rightarrow> bool" where
  "load_failed run =
     (case run of
        Raises e \<Rightarrow> True
      | Completed returncode stdout \<Rightarrow> returncode \<noteq> 0 \<or> stdout = None)"

text \<open>
  The lookup as C6 words it: the identity of the first record whose IP field equals the
  query, whatever that identity is.
\<close>

definition first_ip_match :: "string \<Rightarrow> gossip_entry list \<Rightarrow> string option" where
  "first_ip_match ip g =
     (case find (\<lambda>e. ipAddress e = Some ip) g of
        None \<Rightarrow> None
      | Some e \<Rightarrow> identityPubkey e)"

text \<open>
  A run used as concrete input: the IP list file holds one IP, the three setup commands
  succeed, the IP is the address of the active validator \<open>ABC\<close> whose name contains a
  comma, the probe times out, the geo request fails, and the output file can be written.
\<close>

definition example_world :: world where
  "example_world =
     \<lparr>ip_list_file = Inr [''10.0.0.5''],
      ip_route = Raises OtherException,
      solana_validators =
        Completed 0 (Some \<lparr>validators = Some [\<lparr>validator_identityPubkey = Some ''ABC''\<rparr>]\<rparr>),
      solana_validator_info =
        Completed 0 (Some [\<lparr>info_identityPubkey = Some ''ABC'',
                            info_fields = Some \<lparr>info_name = Some ''Node, One''\<rparr>\<rparr>]),
      solana_gossip =
        Completed 0 (Some [\<lparr>ipAddress = Some ''10.0.0.5'', identityPubkey = Some ''ABC''\<rparr>]),
      ping = (\<lambda>k. Raises TimeoutExpired),
      ip_api = (\<lambda>k. GetRaises RequestException),
      open_output = None\<rparr>"

definition with_geo :: args where
  "with_geo = \<lparr>ip_list = Some ''ips.txt'', no_geo = False\<rparr>"

definition without_geo :: args where
  "without_geo = \<lparr>ip_list = Some ''ips.txt'', no_geo = True\<rparr>"



section \<open>Properties\<close>

subsection \<open>Gossip lookup\<close>

lemma get_identity_nonempty:
  "get_identity_from_gossip ip g = Some k \<Longrightarrow> k \<noteq> []"
  by (induction g) (auto simp: Let_def split: if_splits)

lemma get_identity_find:
  "get_identity_from_gossip ip g =
     (case find (\<lambda>e. ipAddress e = Some ip \<and> truthy (identityPubkey e)) g of
        None \<Rightarrow> None | Some e \<Rightarrow> identityPubkey e)"
  by (induction g) (simp_all add: Let_def)

lemma get_identity_no_ip:
  "\<forall>e \<in> set g. ipAddress e \<noteq> Some ip \<Longrightarrow> get_identity_from_gossip ip g = None"
  by (induction g) simp_all

lemma get_identity_skip:
  "ipAddress e = Some ip \<Longrightarrow> \<not> truthy (identityPubkey e) \<Longrightarrow>
   get_identity_from_gossip ip (pre @ e # post) = get_identity_from_gossip ip (pre @ post)"
  by (induction pre) (simp_all add: Let_def)

lemma get_identity_first:
  "ipAddress e = Some ip \<Longrightarrow> truthy (identityPubkey e) \<Longrightarrow>
   \<forall>x \<in> set pre. ipAddress x = Some ip \<longrightarrow> \<not> truthy (identityPubkey x) \<Longrightarrow>
   get_identity_from_gossip ip (pre @ e # post) = identityPubkey e"
  by (induction pre) (simp_all add: Let_def)

lemma get_identity_none:
  "\<forall>x \<in> set g. ipAddress x = Some ip \<longrightarrow> \<not> truthy (identityPubkey x) \<Longrightarrow>
   get_identity_from_gossip ip g = None"
  by (induction g) (simp_all add: Let_def)

text \<open>
  C6, as stated, fails: when the first record with the queried IP has no identity and a
  later one has, the code returns the later identity, not the (absent) identity of the
  first record.
\<close>

theorem gossip_lookup_first_ip_counterexample:
  "get_identity_from_gossip ''10.0.0.5''
     [\<lparr>ipAddress = Some ''10.0.0.5'', identityPubkey = None\<rparr>,
      \<lparr>ipAddress = Some ''10.0.0.5'', identityPubkey = Some ''ABC''\<rparr>] = Some ''ABC''
   \<and> first_ip_match ''10.0.0.5''
     [\<lparr>ipAddress = Some ''10.0.0.5'', identityPubkey = None\<rparr>,
      \<lparr>ipAddress = Some ''10.0.0.5'', identityPubkey = Some ''ABC''\<rparr>] = None"
  by (simp add: first_ip_match_def)

text \<open>
  C6, amended. The lookup scans the snapshot in order and returns the identity of the
  first record whose IP field equals the query string exactly and whose identity is not
  empty; it returns \<open>None\<close> when there is no such record, in particular when no record has
  the queried IP. When the first record with the queried IP carries an identity, that
  identity is the result.
\<close>

theorem gossip_lookup_first_with_identity:
  "get_identity_from_gossip ip g =
     (case find (\<lambda>e. ipAddress e = Some ip \<and> truthy (identityPubkey e)) g of
        None \<Rightarrow> None
      | Some e \<Rightarrow> identityPubkey e)
   \<and> ((\<forall>e \<in> set g. ipAddress e \<noteq> Some ip) \<longrightarrow> get_identity_from_gossip ip g = None)
   \<and> (\<forall>e. find (\<lambda>e. ipAddress e = Some ip) g = Some e \<and> truthy (identityPubkey e) \<longrightarrow>
          get_identity_from_gossip ip g = identityPubkey e)"
proof (intro conjI allI impI)
  show "get_identity_from_gossip ip g =
     (case find (\<lambda>e. ipAddress e = Some ip \<and> truthy (identityPubkey e)) g of
        None \<Rightarrow> None
      | Some e \<Rightarrow> identityPubkey e)"
    by (rule get_identity_find)
next
  assume "\<forall>e \<in> set g. ipAddress e \<noteq> Some ip"
  then show "get_identity_from_gossip ip g = None"
    by (rule get_identity_no_ip)
next
  fix e
  assume "find (\<lambda>e. ipAddress e = Some ip) g = Some e \<and> truthy (identityPubkey e)"
  then show "get_identity_from_gossip ip g = identityPubkey e"
    by (induction g) (auto simp: Let_def split: if_splits)
qed

theorem gossip_lookup_first_with_identity_witness:
  "get_identity_from_gossip ''10.0.0.5''
     [\<lparr>ipAddress = Some ''10.0.0.5'', identityPubkey = None\<rparr>,
      \<lparr>ipAddress = Some ''10.0.0.5'', identityPubkey = Some ''ABC''\<rparr>] = Some ''ABC''
   \<and> get_identity_from_gossip ''10.0.0.9''
     [\<lparr>ipAddress = Some ''10.0.0.5'', identityPubkey = Some ''ABC''\<rparr>,
      \<lparr>ipAddress = Some '' 10.0.0.9'', identityPubkey = Some ''DEF''\<rparr>] = None
   \<and> get_identity_from_gossip ''10.0.0.5''
     [\<lparr>ipAddress = Some ''10.0.0.5'', identityPubkey = Some ''ABC''\<rparr>,
      \<lparr>ipAddress = Some ''10.0.0.5'', identityPubkey = Some ''DEF''\<rparr>] = Some ''ABC''"
  using
    gossip_lookup_first_with_identity [of "''10.0.0.5''"
      "[\<lparr>ipAddress = Some ''10.0.0.5'', identityPubkey = None\<rparr>,
        \<lparr>ipAddress = Some ''10.0.0.5'', identityPubkey = Some ''ABC''\<rparr>]"]
    gossip_lookup_first_with_identity [of "''10.0.0.9''"
      "[\<lparr>ipAddress = Some ''10.0.0.5'', identityPubkey = Some ''ABC''\<rparr>,
        \<lparr>ipAddress = Some '' 10.0.0.9'', identityPubkey = Some ''DEF''\<rparr>]"]
    gossip_lookup_first_with_identity [of "''10.0.0.5''"
      "[\<lparr>ipAddress = Some ''10.0.0.5'', identityPubkey = Some ''ABC''\<rparr>,
        \<lparr>ipAddress = Some ''10.0.0.5'', identityPubkey = Some ''DEF''\<rparr>]"]
  by simp

text \<open>
  C10. A record with the queried IP and an absent or empty identity is skipped: removing
  it from the snapshot does not change the result. The result is the identity of the
  first record with the queried IP that carries a non-empty identity, and it is \<open>None\<close>
  when every record with the queried IP lacks an identity.
\<close>

theorem gossip_lookup_skips_missing_identity:
  "(ipAddress e = Some ip \<and> \<not> truthy (identityPubkey e) \<longrightarrow>
      get_identity_from_gossip ip (pre @ e # post) = get_identity_from_gossip ip (pre @ post))
   \<and> (ipAddress e = Some ip \<and> truthy (identityPubkey e) \<and>
      (\<forall>x \<in> set pre. ipAddress x = Some ip \<longrightarrow> \<not> truthy (identityPubkey x)) \<longrightarrow>
      get_identity_from_gossip ip (pre @ e # post) = identityPubkey e)
   \<and> ((\<forall>x \<in> set g. ipAddress x = Some ip \<longrightarrow> \<not> truthy (identityPubkey x)) \<longrightarrow>
      get_identity_from_gossip ip g = None)"
  using get_identity_skip [of e ip pre post] get_identity_first [of e ip pre post]
    get_identity_none [of g ip]
  by blast

theorem gossip_lookup_skips_missing_identity_witness:
  "get_identity_from_gossip ''10.0.0.5''
     ([\<lparr>ipAddress = Some ''10.0.0.7'', identityPubkey = Some ''GHI''\<rparr>] @
      \<lparr>ipAddress = Some ''10.0.0.5'', identityPubkey = Some ''''\<rparr> #
      [\<lparr>ipAddress = Some ''10.0.0.5'', identityPubkey = Some ''ABC''\<rparr>])
   = get_identity_from_gossip ''10.0.0.5''
     ([\<lparr>ipAddress = Some ''10.0.0.7'', identityPubkey = Some ''GHI''\<rparr>] @
      [\<lparr>ipAddress = Some ''10.0.0.5'', identityPubkey = Some ''ABC''\<rparr>])
   \<and> get_identity_from_gossip ''10.0.0.5''
     ([\<lparr>ipAddress = Some ''10.0.0.5'', identityPubkey = None\<rparr>,
       \<lparr>ipAddress = Some ''10.0.0.5'', identityPubkey = Some ''''\<rparr>] @
      \<lparr>ipAddress = Some ''10.0.0.5'', identityPubkey = Some ''ABC''\<rparr> #
      [\<lparr>ipAddress = Some ''10.0.0.5'', identityPubkey = Some ''DEF''\<rparr>]) = Some ''ABC''
   \<and> get_identity_from_gossip ''10.0.0.5''
     [\<lparr>ipAddress = Some ''10.0.0.5'', identityPubkey = None\<rparr>,
      \<lparr>ipAddress = Some ''10.0.0.5'', identityPubkey = Some ''''\<rparr>,
      \<lparr>ipAddress = Some ''10.0.0.7'', identityPubkey = Some ''GHI''\<rparr>] = None"
  using
    gossip_lookup_skips_missing_identity [of
      "\<lparr>ipAddress = Some ''10.0.0.5'', identityPubkey = Some ''''\<rparr>" "''10.0.0.5''"
      "[\<lparr>ipAddress = Some ''10.0.0.7'', identityPubkey = Some ''GHI''\<rparr>]"
      "[\<lparr>ipAddress = Some ''10.0.0.5'', identityPubkey = Some ''ABC''\<rparr>]" "[]"]
    gossip_lookup_skips_missing_identity [of
      "\<lparr>ipAddress = Some ''10.0.0.5'', identityPubkey = Some ''ABC''\<rparr>" "''10.0.0.5''"
      "[\<lparr>ipAddress = Some ''10.0.0.5'', identityPubkey = None\<rparr>,
        \<lparr>ipAddress = Some ''10.0.0.5'', identityPubkey = Some ''''\<rparr>]"
      "[\<lparr>ipAddress = Some ''10.0.0.5'', identityPubkey = Some ''DEF''\<rparr>]"
      "[\<lparr>ipAddress = Some ''10.0.0.5'', identityPubkey = None\<rparr>,
        \<lparr>ipAddress = Some ''10.0.0.5'', identityPubkey = Some ''''\<rparr>,
        \<lparr>ipAddress = Some ''10.0.0.7'', identityPubkey = Some ''GHI''\<rparr>]"]
  by simp

subsection \<open>Classification\<close>

text \<open>
  C1. The classification is a three-way function of the identity found in gossip: when
  the lookup finds nothing the result is \<open>gossip_not_found\<close> with an empty name; when the
  identity is in the active set the result is \<open>validator\<close> with the entry of the name map,
  or \<open>Unknown\<close> when the map has no entry; otherwise the result is \<open>gossip\<close> with an empty
  name.
\<close>

theorem classify_three_way:
  "classify ip gossip_data active validator_info =
     (case get_identity_from_gossip ip gossip_data of
        None \<Rightarrow> (''gossip_not_found'', '''')
      | Some identity \<Rightarrow>
          if identity \<in> active then
            (''validator'',
             case map_of validator_info identity of Some n \<Rightarrow> n | None \<Rightarrow> ''Unknown'')
          else (''gossip'', ''''))"
proof (cases "get_identity_from_gossip ip gossip_data")
  case None
  then show ?thesis by (simp add: classify_def)
next
  case (Some k)
  then have "k \<noteq> []" by (rule get_identity_nonempty)
  with Some show ?thesis by (simp add: classify_def)
qed

text \<open>The scenarios of the specification, obtained from the theorem.\<close>

theorem classify_three_way_witness:
  "classify ''10.0.0.5'' [\<lparr>ipAddress = Some ''10.0.0.5'', identityPubkey = Some ''ABC''\<rparr>]
     {''ABC''} [(''ABC'', ''Node1'')] = (''validator'', ''Node1'')
   \<and> classify ''10.0.0.9'' [\<lparr>ipAddress = Some ''10.0.0.5'', identityPubkey = Some ''ABC''\<rparr>]
     {''ABC''} [(''ABC'', ''Node1'')] = (''gossip_not_found'', '''')
   \<and> classify ''10.0.0.5'' [\<lparr>ipAddress = Some ''10.0.0.5'', identityPubkey = Some ''ABC''\<rparr>]
     {''XYZ''} [(''ABC'', ''Node1'')] = (''gossip'', '''')
   \<and> classify ''10.0.0.5'' [\<lparr>ipAddress = Some ''10.0.0.5'', identityPubkey = Some ''ABC''\<rparr>]
     {''ABC''} [] = (''validator'', ''Unknown'')"
  using
    classify_three_way [of "''10.0.0.5''"
      "[\<lparr>ipAddress = Some ''10.0.0.5'', identityPubkey = Some ''ABC''\<rparr>]"
      "{''ABC''}" "[(''ABC'', ''Node1'')]"]
    classify_three_way [of "''10.0.0.9''"
      "[\<lparr>ipAddress = Some ''10.0.0.5'', identityPubkey = Some ''ABC''\<rparr>]"
      "{''ABC''}" "[(''ABC'', ''Node1'')]"]
    classify_three_way [of "''10.0.0.5''"
      "[\<lparr>ipAddress = Some ''10.0.0.5'', identityPubkey = Some ''ABC''\<rparr>]"
      "{''XYZ''}" "[(''ABC'', ''Node1'')]"]
    classify_three_way [of "''10.0.0.5''"
      "[\<lparr>ipAddress = Some ''10.0.0.5'', identityPubkey = Some ''ABC''\<rparr>]"
      "{''ABC''}" "[]"]
  by simp

subsection \<open>The latency probe\<close>

lemma expect_Some: "expect lit s = Some r \<longleftrightarrow> s = lit @ r"
proof
  assume "expect lit s = Some r"
  then have "take (length lit) s = lit" and "drop (length lit) s = r"
    by (auto simp: expect_def split: if_splits)
  then show "s = lit @ r"
    by (metis append_take_drop_id)
next
  assume "s = lit @ r"
  then show "expect lit s = Some r" by (simp add: expect_def)
qed

lemma take_class_Some:
  "take_class s = Some (a, r) \<longleftrightarrow>
     class_run a \<and> s = a @ r \<and> (r = [] \<or> \<not> is_class_char (hd r))"
proof
  assume h: "take_class s = Some (a, r)"
  then have a: "a = takeWhile is_class_char s" and r: "r = dropWhile is_class_char s" and ne: "a \<noteq> []"
    by (auto simp: take_class_def Let_def split: if_splits)
  have "list_all is_class_char a" unfolding a list_all_iff
    by (auto dest: set_takeWhileD)
  moreover have "s = a @ r" unfolding a r by simp
  moreover have "r = [] \<or> \<not> is_class_char (hd r)" unfolding r
    by (metis hd_dropWhile)
  ultimately show "class_run a \<and> s = a @ r \<and> (r = [] \<or> \<not> is_class_char (hd r))"
    using ne by (simp add: class_run_def)
next
  assume h: "class_run a \<and> s = a @ r \<and> (r = [] \<or> \<not> is_class_char (hd r))"
  then have all: "\<forall>c \<in> set a. is_class_char c" and ne: "a \<noteq> []" and s: "s = a @ r"
    by (auto simp: class_run_def list_all_iff)
  from h have tr: "takeWhile is_class_char r = []"
    by (simp add: takeWhile_eq_Nil_iff)
  from h have dr: "dropWhile is_class_char r = r"
    by (cases r) auto
  have "takeWhile is_class_char s = a"
    unfolding s using all tr by simp
  moreover have "dropWhile is_class_char s = r"
    unfolding s using all dr by simp
  ultimately show "take_class s = Some (a, r)"
    using ne by (simp add: take_class_def Let_def)
qed

lemma match_here_sound:
  "match_here s = Some g \<Longrightarrow>
     \<exists>a c d rest.
        s = ''min/avg/max/mdev = '' @ a @ ''/'' @ g @ ''/'' @ c @ ''/'' @ d @ '' ms'' @ rest
        \<and> class_run a \<and> class_run g \<and> class_run c \<and> class_run d"
    unfolding match_here_def
    by (auto simp: bind_eq_Some_conv expect_Some take_class_Some simp del: append.simps)

lemma re_search_Some:
  "re_search s = Some g \<Longrightarrow> \<exists>pre post. s = pre @ post \<and> match_here post = Some g"
proof (induction s)
  case Nil
  then show ?case by simp
next
  case (Cons c cs)
  show ?case
  proof (cases "match_here (c # cs)")
    case None
    with Cons.prems have "re_search cs = Some g" by simp
    then obtain pre post where "cs = pre @ post" "match_here post = Some g"
      using Cons.IH by blast
    then have "c # cs = (c # pre) @ post \<and> match_here post = Some g" by simp
    then show ?thesis by blast
  next
    case (Some g')
    with Cons.prems have "match_here (c # cs) = Some g" by simp
    then have "c # cs = [] @ (c # cs) \<and> match_here (c # cs) = Some g" by simp
    then show ?thesis by blast
  qed
qed

lemma class_run_not_unreachable: "class_run g \<Longrightarrow> g \<noteq> ''unreachable''"
  by (auto simp: class_run_def is_class_char_def)

lemma re_search_summary:
  assumes "re_search out = Some l"
  shows "\<exists>pre a c d post.
           out = pre @ ''min/avg/max/mdev = '' @ a @ ''/'' @ l @ ''/'' @ c @ ''/'' @ d @ '' ms'' @ post
           \<and> class_run a \<and> class_run l \<and> class_run c \<and> class_run d"
proof -
  from assms obtain pre post where o: "out = pre @ post" and m: "match_here post = Some l"
    using re_search_Some by blast
  from match_here_sound [OF m] obtain a c d rest where
    "post = ''min/avg/max/mdev = '' @ a @ ''/'' @ l @ ''/'' @ c @ ''/'' @ d @ '' ms'' @ rest"
    "class_run a" "class_run l" "class_run c" "class_run d" by blast
  with o show ?thesis by blast
qed

lemma ping_ip_Inr: "\<exists>l. ping_ip run = Inr l"
  by (cases run) (auto simp: ping_ip_def try_except_def split: option.splits)

lemma match_here_complete:
  assumes s: "s = ''min/avg/max/mdev = '' @ a @ ''/'' @ g @ ''/'' @ c @ ''/'' @ d @ '' ms'' @ rest"
    and cl: "class_run a" "class_run g" "class_run c" "class_run d"
  shows "match_here s = Some g"
proof -
  have slash: "\<not> is_class_char CHR ''/''" and sp: "\<not> is_class_char CHR '' ''"
    by (simp_all add: is_class_char_def)
  have 1: "expect ''min/avg/max/mdev = '' s = Some (a @ ''/'' @ g @ ''/'' @ c @ ''/'' @ d @ '' ms'' @ rest)"
    unfolding expect_Some s by simp
  have 2: "take_class (a @ ''/'' @ g @ ''/'' @ c @ ''/'' @ d @ '' ms'' @ rest) = Some (a, ''/'' @ g @ ''/'' @ c @ ''/'' @ d @ '' ms'' @ rest)"
    unfolding take_class_Some using cl slash by simp
  have 3: "expect ''/'' (''/'' @ g @ ''/'' @ c @ ''/'' @ d @ '' ms'' @ rest) = Some (g @ ''/'' @ c @ ''/'' @ d @ '' ms'' @ rest)"
    unfolding expect_Some by simp
  have 4: "take_class (g @ ''/'' @ c @ ''/'' @ d @ '' ms'' @ rest) = Some (g, ''/'' @ c @ ''/'' @ d @ '' ms'' @ rest)"
    unfolding take_class_Some using cl slash by simp
  have 5: "expect ''/'' (''/'' @ c @ ''/'' @ d @ '' ms'' @ rest) = Some (c @ ''/'' @ d @ '' ms'' @ rest)"
    unfolding expect_Some by simp
  have 6: "take_class (c @ ''/'' @ d @ '' ms'' @ rest) = Some (c, ''/'' @ d @ '' ms'' @ rest)"
    unfolding take_class_Some using cl slash by simp
  have 7: "expect ''/'' (''/'' @ d @ '' ms'' @ rest) = Some (d @ '' ms'' @ rest)"
    unfolding expect_Some by simp
  have 8: "take_class (d @ '' ms'' @ rest) = Some (d, '' ms'' @ rest)"
    unfolding take_class_Some using cl sp by simp
  have 9: "expect '' ms'' ('' ms'' @ rest) = Some rest"
    unfolding expect_Some by simp
  show "match_here s = Some g"
    unfolding match_here_def by (simp only: 1 2 3 4 5 6 7 8 9 Option.bind.simps prod.case)
qed

lemma matches_at_match_here: "matches_at out n l \<longleftrightarrow> match_here (drop n out) = Some l"
proof
  assume "matches_at out n l"
  then show "match_here (drop n out) = Some l"
    unfolding matches_at_def using match_here_complete by blast
next
  assume "match_here (drop n out) = Some l"
  from match_here_sound [OF this] show "matches_at out n l"
    unfolding matches_at_def by blast
qed

lemma match_here_Nil: "match_here [] = None"
  by (simp add: match_here_def expect_def)

lemma re_search_leftmost:
  "match_here (drop n s) = Some l \<Longrightarrow> \<forall>m<n. match_here (drop m s) = None \<Longrightarrow>
   re_search s = Some l"
proof (induction s arbitrary: n)
  case Nil
  then show ?case by simp
next
  case (Cons c cs)
  show ?case
  proof (cases n)
    case 0
    with Cons.prems show ?thesis by simp
  next
    case (Suc k)
    with Cons.prems have here: "match_here (c # cs) = None" by force
    from Suc Cons.prems have 1: "match_here (drop k cs) = Some l" by simp
    have 2: "\<forall>m<k. match_here (drop m cs) = None"
    proof (intro allI impI)
      fix m assume "m < k"
      then have "Suc m < n" using Suc by simp
      with Cons.prems(2) have "match_here (drop (Suc m) (c # cs)) = None" by blast
      then show "match_here (drop m cs) = None" by simp
    qed
    from Cons.IH [OF 1 2] here show ?thesis by simp
  qed
qed

lemma re_search_no_match:
  "\<forall>n. match_here (drop n s) = None \<Longrightarrow> re_search s = None"
proof (induction s)
  case Nil
  then show ?case by (simp add: match_here_Nil)
next
  case (Cons c cs)
  from Cons.prems have here: "match_here (c # cs) = None" by (metis drop0)
  have "\<forall>n. match_here (drop n cs) = None"
  proof
    fix n
    from Cons.prems have "match_here (drop (Suc n) (c # cs)) = None" by blast
    then show "match_here (drop n cs) = None" by simp
  qed
  from Cons.IH [OF this] here show ?case by simp
qed

text \<open>
  C8. The probe never raises. When the command exits with status zero and the pattern
  matches its output somewhere, the result is group 1 of the leftmost match, that is the
  second number of the summary line (the average), and it is never the sentinel. When
  the pattern matches nowhere, on a non-zero exit status, on a timeout and on any other
  exception, the result is the sentinel \<open>unreachable\<close>. The last two conjuncts relate the
  result to the search function of the model.
\<close>

theorem ping_ip_outcomes:
  "(\<exists>l. ping_ip run = Inr l)
   \<and> (\<forall>out n l. run = Completed 0 out \<and> matches_at out n l
          \<and> (\<forall>m<n. \<forall>l'. \<not> matches_at out m l') \<longrightarrow>
        ping_ip run = Inr l \<and> l \<noteq> ''unreachable'')
   \<and> (\<forall>out n l. run = Completed 0 out \<and> matches_at out n l \<longrightarrow>
        (\<exists>l'. ping_ip run = Inr l' \<and> l' \<noteq> ''unreachable''))
   \<and> (\<forall>out. run = Completed 0 out \<and> (\<forall>n l. \<not> matches_at out n l) \<longrightarrow>
        ping_ip run = Inr ''unreachable'')
   \<and> (\<forall>returncode out. run = Completed returncode out \<and> returncode \<noteq> 0 \<longrightarrow>
        ping_ip run = Inr ''unreachable'')
   \<and> (\<forall>e. run = Raises e \<longrightarrow> ping_ip run = Inr ''unreachable'')
   \<and> (\<forall>out l. run = Completed 0 out \<and> re_search out = Some l \<longrightarrow>
        ping_ip run = Inr l \<and> l \<noteq> ''unreachable''
        \<and> (\<exists>pre a c d post.
              out = pre @ ''min/avg/max/mdev = '' @ a @ ''/'' @ l @ ''/'' @ c @ ''/'' @ d
                    @ '' ms'' @ post
              \<and> class_run a \<and> class_run l \<and> class_run c \<and> class_run d))
   \<and> (\<forall>out. run = Completed 0 out \<and> re_search out = None \<longrightarrow>
        ping_ip run = Inr ''unreachable'')"
proof (intro conjI allI impI)
  show "\<exists>l. ping_ip run = Inr l" by (rule ping_ip_Inr)
next
  fix out n l
  assume h: "run = Completed 0 out \<and> matches_at out n l
          \<and> (\<forall>m<n. \<forall>l'. \<not> matches_at out m l')"
  then have here: "match_here (drop n out) = Some l"
    by (simp add: matches_at_match_here)
  have before: "\<forall>m<n. match_here (drop m out) = None"
  proof (intro allI impI)
    fix m assume "m < n"
    with h have "\<forall>l'. match_here (drop m out) \<noteq> Some l'"
      by (simp add: matches_at_match_here)
    then show "match_here (drop m out) = None" by (cases "match_here (drop m out)") auto
  qed
  have "re_search out = Some l" using here before by (rule re_search_leftmost)
  with h show "ping_ip run = Inr l" by (simp add: ping_ip_def try_except_def)
  from h have "class_run l" by (auto simp: matches_at_def)
  then show "l \<noteq> ''unreachable''" by (rule class_run_not_unreachable)
next
  fix out n l
  assume h: "run = Completed 0 out \<and> matches_at out n l"
  then have "\<exists>k. \<exists>l'. matches_at out k l'" by blast
  then obtain k where k: "\<exists>l'. matches_at out k l'" and least: "\<forall>m<k. \<not> (\<exists>l'. matches_at out m l')"
    using exists_least_iff [of "\<lambda>k. \<exists>l'. matches_at out k l'"] by blast
  from k obtain l' where l': "matches_at out k l'" by blast
  then have here: "match_here (drop k out) = Some l'" by (simp add: matches_at_match_here)
  have before: "\<forall>m<k. match_here (drop m out) = None"
  proof (intro allI impI)
    fix m assume "m < k"
    with least have "\<forall>x. match_here (drop m out) \<noteq> Some x"
      by (simp add: matches_at_match_here)
    then show "match_here (drop m out) = None" by (cases "match_here (drop m out)") auto
  qed
  have "re_search out = Some l'" using here before by (rule re_search_leftmost)
  with h have "ping_ip run = Inr l'" by (simp add: ping_ip_def try_except_def)
  moreover from l' have "class_run l'" by (auto simp: matches_at_def)
  then have "l' \<noteq> ''unreachable''" by (rule class_run_not_unreachable)
  ultimately show "\<exists>l'. ping_ip run = Inr l' \<and> l' \<noteq> ''unreachable''" by blast
next
  fix out
  assume h: "run = Completed 0 out \<and> (\<forall>n l. \<not> matches_at out n l)"
  have "\<forall>n. match_here (drop n out) = None"
  proof
    fix n
    from h have "\<forall>l. match_here (drop n out) \<noteq> Some l" by (simp add: matches_at_match_here)
    then show "match_here (drop n out) = None" by (cases "match_here (drop n out)") auto
  qed
  then have "re_search out = None" by (rule re_search_no_match)
  with h show "ping_ip run = Inr ''unreachable''" by (simp add: ping_ip_def try_except_def)
next
  fix returncode out
  assume "run = Completed returncode out \<and> returncode \<noteq> 0"
  then show "ping_ip run = Inr ''unreachable''" by (simp add: ping_ip_def try_except_def)
next
  fix e
  assume "run = Raises e"
  then show "ping_ip run = Inr ''unreachable''" by (simp add: ping_ip_def try_except_def)
next
  fix out l
  assume h: "run = Completed 0 out \<and> re_search out = Some l"
  then show "ping_ip run = Inr l" by (simp add: ping_ip_def try_except_def)
  from h obtain pre a c d post where
    s: "out = pre @ ''min/avg/max/mdev = '' @ a @ ''/'' @ l @ ''/'' @ c @ ''/'' @ d @ '' ms'' @ post"
    and cl: "class_run a" "class_run l" "class_run c" "class_run d"
    using re_search_summary by blast
  from cl show "l \<noteq> ''unreachable''" by (simp add: class_run_not_unreachable)
  from s cl show "\<exists>pre a c d post.
              out = pre @ ''min/avg/max/mdev = '' @ a @ ''/'' @ l @ ''/'' @ c @ ''/'' @ d
                    @ '' ms'' @ post
              \<and> class_run a \<and> class_run l \<and> class_run c \<and> class_run d" by blast
next
  fix out
  assume "run = Completed 0 out \<and> re_search out = None"
  then show "ping_ip run = Inr ''unreachable''" by (simp add: ping_ip_def try_except_def)
qed

theorem ping_ip_outcomes_witness:
  "matches_at two_line_output 15 ''0.052''
   \<and> ping_ip (Completed 0 two_line_output) = Inr ''0.052''
   \<and> ping_ip (Completed 0 ''rtt min/avg/max/mdev = 0.045/0.052/0.061/0.007 ms'') = Inr ''0.052''
   \<and> ping_ip (Completed 1 two_line_output) = Inr ''unreachable''
   \<and> ping_ip (Completed 0 ''3 packets transmitted, 3 received'') = Inr ''unreachable''
   \<and> ping_ip (Raises TimeoutExpired) = Inr ''unreachable''
   \<and> ping_ip (Raises FileNotFoundError) = Inr ''unreachable''"
proof -
  have at: "matches_at two_line_output 15 ''0.052''"
    unfolding matches_at_def two_line_output_def
    by (rule exI [of _ "''0.045''"], rule exI [of _ "''0.061''"], rule exI [of _ "''0.007''"],
        rule exI [of _ "[]"])
       (simp add: class_run_def is_class_char_def)
  have "\<forall>m \<in> set [0..<15]. match_here (drop m two_line_output) = None"
    by code_simp
  then have before: "\<forall>m<15. \<forall>l'. \<not> matches_at two_line_output m l'"
    by (simp add: matches_at_match_here)
  have two: "ping_ip (Completed 0 two_line_output) = Inr ''0.052''"
    using ping_ip_outcomes [of "Completed 0 two_line_output", THEN conjunct2, THEN conjunct1,
        rule_format, of two_line_output 15 "''0.052''"] at before
    by simp
  have found:
    "re_search ''rtt min/avg/max/mdev = 0.045/0.052/0.061/0.007 ms'' = Some ''0.052''"
    by code_simp
  have absent: "re_search ''3 packets transmitted, 3 received'' = None"
    by code_simp
  show ?thesis
    using at two found absent
      ping_ip_outcomes [of "Completed 0 ''rtt min/avg/max/mdev = 0.045/0.052/0.061/0.007 ms''"]
      ping_ip_outcomes [of "Completed 1 two_line_output"]
      ping_ip_outcomes [of "Completed 0 ''3 packets transmitted, 3 received''"]
      ping_ip_outcomes [of "Raises TimeoutExpired"]
      ping_ip_outcomes [of "Raises FileNotFoundError"]
    by simp
qed

subsection \<open>The geo lookup\<close>

lemma get_ip_location_Inr: "\<exists>city country. get_ip_location response = Inr (city, country)"
  by (cases response)
     (auto simp: get_ip_location_def try_except_def json_loads_def Let_def split: option.splits)

text \<open>
  C9. The geo lookup never raises: it always returns a pair. When the request raises
  (a network error or anything else), when the HTTP status is an error status, when the
  body is not JSON and when the status field of the body is not \<open>success\<close>, the pair is
  \<open>(Unknown, Unknown)\<close>.
\<close>

theorem get_ip_location_never_fails:
  "(\<exists>city country. get_ip_location response = Inr (city, country))
   \<and> (\<forall>e. response = GetRaises e \<longrightarrow>
        get_ip_location response = Inr (''Unknown'', ''Unknown''))
   \<and> (\<forall>status_code body. response = Response status_code body
          \<and> 400 \<le> status_code \<and> status_code < 600 \<longrightarrow>
        get_ip_location response = Inr (''Unknown'', ''Unknown''))
   \<and> (\<forall>status_code data. response = Response status_code (Some data)
          \<and> geo_status data \<noteq> Some ''success'' \<longrightarrow>
        get_ip_location response = Inr (''Unknown'', ''Unknown''))
   \<and> (\<forall>status_code. response = Response status_code None \<longrightarrow>
        get_ip_location response = Inr (''Unknown'', ''Unknown''))"
proof (intro conjI allI impI)
  show "\<exists>city country. get_ip_location response = Inr (city, country)"
    by (rule get_ip_location_Inr)
next
  fix e
  assume "response = GetRaises e"
  then show "get_ip_location response = Inr (''Unknown'', ''Unknown'')"
    by (simp add: get_ip_location_def try_except_def)
next
  fix status_code body
  assume "response = Response status_code body \<and> 400 \<le> status_code \<and> status_code < 600"
  then show "get_ip_location response = Inr (''Unknown'', ''Unknown'')"
    by (simp add: get_ip_location_def try_except_def)
next
  fix status_code data
  assume "response = Response status_code (Some data) \<and> geo_status data \<noteq> Some ''success''"
  then show "get_ip_location response = Inr (''Unknown'', ''Unknown'')"
    by (simp add: get_ip_location_def try_except_def json_loads_def)
next
  fix status_code
  assume "response = Response status_code None"
  then show "get_ip_location response = Inr (''Unknown'', ''Unknown'')"
    by (simp add: get_ip_location_def try_except_def json_loads_def)
qed

theorem get_ip_location_never_fails_witness:
  "get_ip_location (GetRaises RequestException) = Inr (''Unknown'', ''Unknown'')
   \<and> get_ip_location (GetRaises OtherException) = Inr (''Unknown'', ''Unknown'')
   \<and> get_ip_location (Response 429
        (Some \<lparr>geo_status = Some ''success'', geo_city = Some ''Paris'',
               geo_country = Some ''France''\<rparr>)) = Inr (''Unknown'', ''Unknown'')
   \<and> get_ip_location (Response 200
        (Some \<lparr>geo_status = Some ''fail'', geo_city = Some ''Paris'',
               geo_country = Some ''France''\<rparr>)) = Inr (''Unknown'', ''Unknown'')
   \<and> get_ip_location (Response 200 None) = Inr (''Unknown'', ''Unknown'')"
  using
    get_ip_location_never_fails [of "GetRaises RequestException"]
    get_ip_location_never_fails [of "GetRaises OtherException"]
    get_ip_location_never_fails [of "Response 429
        (Some \<lparr>geo_status = Some ''success'', geo_city = Some ''Paris'',
               geo_country = Some ''France''\<rparr>)"]
    get_ip_location_never_fails [of "Response 200
        (Some \<lparr>geo_status = Some ''fail'', geo_city = Some ''Paris'',
               geo_country = Some ''France''\<rparr>)"]
    get_ip_location_never_fails [of "Response 200 None"]
  by simp

subsection \<open>The run\<close>














lemmas run_defs =
  main_def resolve_ips_def read_ip_list_def get_ips_from_rt_def strip_def is_space_def
  load_active_validators_def load_validator_details_def load_gossip_data_def
  try_except_def json_loads_def entry_name_def classify_def ping_ip_def
  get_ip_location_def remove_commas_def write_output_def header_def
  crash_def early_return_def

lemma example_rows_without_geo:
  "rows (main without_geo example_world) =
     [[''10.0.0.5'', ''validator'', ''Node, One'', ''unreachable'']]"
  by (simp add: run_defs example_world_def without_geo_def)

lemma example_rows_with_geo:
  "rows (main with_geo example_world) =
     [[''10.0.0.5'', ''validator'', ''Node One'', ''unreachable'', ''Unknown'', ''Unknown'']]"
  by (simp add: run_defs example_world_def with_geo_def)

lemma example_file_without_geo:
  "output_file (main without_geo example_world) =
     Some [[''IP'', ''Status'', ''Validator Name'', ''Latency'', ''City'', ''Country''],
           [''10.0.0.5'', ''validator'', ''Node, One'', ''unreachable'']]"
  by (simp add: run_defs example_world_def without_geo_def)

lemma example_file_with_geo:
  "output_file (main with_geo example_world) =
     Some [[''IP'', ''Status'', ''Validator Name'', ''Latency''],
           [''10.0.0.5'', ''validator'', ''Node One'', ''unreachable'', ''Unknown'', ''Unknown'']]"
  by (simp add: run_defs example_world_def with_geo_def)




subsection \<open>Failed loads and the output file\<close>

lemma load_active_validators_failed:
  "load_failed run \<Longrightarrow> load_active_validators run = Inr {}"
  by (cases run)
     (auto simp: load_failed_def load_active_validators_def try_except_def json_loads_def)

lemma load_validator_details_failed:
  "load_failed run \<Longrightarrow> load_validator_details run = Inr []"
  by (cases run)
     (auto simp: load_failed_def load_validator_details_def try_except_def json_loads_def)





text \<open>
  C5, as stated, fails: a load that times out (or whose command exits with a non-zero
  code) and a load that succeeds and finds nothing return the same value, so the caller
  cannot tell them apart.
\<close>

theorem registry_load_failure_counterexample:
  "load_failed (Raises TimeoutExpired :: validators_doc option proc)
   \<and> \<not> load_failed (Completed 0 (Some \<lparr>validators = Some []\<rparr>))
   \<and> load_active_validators (Raises TimeoutExpired) =
       load_active_validators (Completed 0 (Some \<lparr>validators = Some []\<rparr>))
   \<and> load_failed (Completed 1 None :: validator_info_entry list option proc)
   \<and> \<not> load_failed (Completed 0 (Some ([] :: validator_info_entry list)))
   \<and> load_validator_details (Completed 1 None) = load_validator_details (Completed 0 (Some []))"
  by (simp add: load_failed_def load_active_validators_def load_validator_details_def
        try_except_def json_loads_def)

text \<open>
  C5, amended. A failing load of the active set returns the empty set and a failing load
  of the name map returns the empty dictionary, with no failure signal: these are the
  values returned by a successful load that finds zero entries.
\<close>

theorem registry_load_failure_returns_empty:
  "(load_failed run \<longrightarrow> load_active_validators run = Inr {})
   \<and> (load_failed run' \<longrightarrow> load_validator_details run' = Inr [])
   \<and> load_active_validators (Completed 0 (Some \<lparr>validators = Some []\<rparr>)) = Inr {}
   \<and> load_validator_details (Completed 0 (Some [])) = Inr []"
  using load_active_validators_failed [of run] load_validator_details_failed [of run']
  by (simp add: load_active_validators_def load_validator_details_def
        try_except_def json_loads_def)

theorem registry_load_failure_returns_empty_witness:
  "load_active_validators (Raises FileNotFoundError) = Inr {}
   \<and> load_active_validators (Completed 1 (Some \<lparr>validators = Some [\<lparr>validator_identityPubkey = Some ''ABC''\<rparr>]\<rparr>)) = Inr {}
   \<and> load_validator_details (Completed 0 None) = Inr []
   \<and> load_validator_details (Raises TimeoutExpired) = Inr []"
  using
    registry_load_failure_returns_empty [of "Raises FileNotFoundError" "Completed 0 None"]
    registry_load_failure_returns_empty
      [of "Completed 1 (Some \<lparr>validators = Some [\<lparr>validator_identityPubkey = Some ''ABC''\<rparr>]\<rparr>)"
          "Raises TimeoutExpired"]
  by (simp add: load_failed_def)

text \<open>
  C2 at a concrete run. With geo enrichment enabled (\<open>no_geo\<close> false) the data row has
  the two geo fields and the header has not; with geo enrichment disabled the header
  names \<open>City\<close> and \<open>Country\<close> and the data row has four fields. The test of line 302 is
  the inverse of the test of line 291.
\<close>

theorem header_and_rows_disagree:
  "output_file (main with_geo example_world) =
     Some [[''IP'', ''Status'', ''Validator Name'', ''Latency''],
           [''10.0.0.5'', ''validator'', ''Node One'', ''unreachable'', ''Unknown'', ''Unknown'']]
   \<and> output_file (main without_geo example_world) =
     Some [[''IP'', ''Status'', ''Validator Name'', ''Latency'', ''City'', ''Country''],
           [''10.0.0.5'', ''validator'', ''Node, One'', ''unreachable'']]"
  by (simp add: example_file_with_geo example_file_without_geo)

text \<open>
  C3 at a concrete run. The classification yields the name \<open>Node, One\<close>. With geo
  enrichment disabled the row keeps the comma (line 292 appends \<open>name\<close> as it is); with
  geo enrichment enabled the comma is removed (line 295).
\<close>

theorem comma_kept_without_geo:
  "classify ''10.0.0.5''
     [\<lparr>ipAddress = Some ''10.0.0.5'', identityPubkey = Some ''ABC''\<rparr>] {''ABC''}
     [(''ABC'', ''Node, One'')] = (''validator'', ''Node, One'')
   \<and> rows (main without_geo example_world) =
       [[''10.0.0.5'', ''validator'', ''Node, One'', ''unreachable'']]
   \<and> rows (main with_geo example_world) =
       [[''10.0.0.5'', ''validator'', ''Node One'', ''unreachable'', ''Unknown'', ''Unknown'']]
   \<and> map (\<lambda>r. r ! 2) (rows (main without_geo example_world)) = [''Node, One'']
   \<and> map (\<lambda>r. r ! 2) (rows (main with_geo example_world)) = [''Node One'']"
  by (simp add: example_rows_without_geo example_rows_with_geo classify_def)

end
